theory Spec2Isabelle
  imports Complex_Main "HOL-Library.Multiset"
begin

section \<open>The persistence schema of infra/init.sql\<close>

text \<open>
  The schema is a PostgreSQL script: three tables, a view, a cleanup function and a seed
  insert. A table is the list of its rows in storage order, a row is a record, a column that
  may hold NULL has an option type, and a statement is a function from the database to an
  error or the new database. The non-unique indexes, the uuid extension and the grants do
  not change what a statement computes and have no counterpart here.
\<close>

subsection \<open>Column types\<close>

text \<open>
  A TIMESTAMP is PostgreSQL's count of microseconds since 2000-01-01 00:00:00, a DATE the
  count of days since 2000-01-01; the limits of their ranges are not modelled. The session
  time zone is taken to be UTC, so that CURRENT_TIMESTAMP and a TIMESTAMP column compare
  as the same counts. A FLOAT is given by the rational number it stands for (the rounding
  of a literal to the nearest double, NaN and the infinities are left out); the only
  arithmetic on FLOAT values is the average of the view, which is a parameter there.
  JSONB is the parsed value.
\<close>

type_synonym timestamp = int
type_synonym date = int
type_synonym float8 = rat

datatype jsonb =
  JNull | JBool bool | JNumber rat | JString string
  | JArray "jsonb list" | JObject "(string \<times> jsonb) list"

datatype sql_error =
  string_data_right_truncation
  | numeric_value_out_of_range
  | not_null_violation string
  | unique_violation string

text \<open>
  What an INSERT gives for a column: nothing (the column is not in the column list, so its
  DEFAULT applies, which is NULL where the table declares none), NULL, or a value.
\<close>

datatype 'a colval = DEFAULT | NULL | Val 'a

fun supplied :: "'a option \<Rightarrow> 'a colval \<Rightarrow> 'a option" where
  "supplied dflt DEFAULT = dflt"
| "supplied dflt NULL = None"
| "supplied dflt (Val x) = Some x"

text \<open>
  Assignment to VARCHAR(n): a longer string is an error unless every character after the
  n-th is a space, in which case the string is cut to n characters (the rule of the SQL
  standard, which PostgreSQL follows). Each element of a string stands for one character.
\<close>

definition varchar_error :: "nat \<Rightarrow> string \<Rightarrow> sql_error option" where
  "varchar_error n s =
     (if n < length s \<and> (\<exists>c \<in> set (drop n s). c \<noteq> CHR '' '')
      then Some string_data_right_truncation else None)"

definition varchar :: "nat \<Rightarrow> string \<Rightarrow> string" where
  "varchar n s = take n s"

text \<open>Assignment to INTEGER: a value outside the 32-bit signed range is an error.\<close>

definition int4_error :: "int \<Rightarrow> sql_error option" where
  "int4_error i =
     (if - 2147483648 \<le> i \<and> i \<le> 2147483647 then None else Some numeric_value_out_of_range)"

fun check :: "('a \<Rightarrow> sql_error option) \<Rightarrow> 'a option \<Rightarrow> sql_error option" where
  "check f None = None"
| "check f (Some x) = f x"

fun first_error :: "sql_error option list \<Rightarrow> sql_error option" where
  "first_error [] = None"
| "first_error (None # es) = first_error es"
| "first_error (Some e # es) = Some e"

subsection \<open>Timestamps and intervals\<close>

text \<open>
  An INTERVAL has a month, a day and a microsecond part: \<open>'1 year'\<close> is twelve months,
  \<open>'30 days'\<close> thirty days, \<open>'2 hours'\<close> a count of microseconds. Subtracting one from a
  timestamp moves the calendar month first (the day of the month is cut to the length of
  the month reached), then the days, then the microseconds. The calendar is PostgreSQL's
  conversion between a Julian day number and year, month, day.
\<close>

record interval =
  span_month :: int
  span_day :: int
  span_time :: int

definition USECS_PER_DAY :: int where
  "USECS_PER_DAY = 86400000000"

definition POSTGRES_EPOCH_JDATE :: int where
  "POSTGRES_EPOCH_JDATE = 2451545"

definition date2j :: "int \<Rightarrow> int \<Rightarrow> int \<Rightarrow> int" where
  "date2j y m d =
     (let (month, year) = (if m > 2 then (m + 1, y + 4800) else (m + 13, y + 4799));
          century = year div 100
      in year * 365 - 32167 + (year div 4 - century + century div 4)
         + 7834 * month div 256 + d)"

definition j2date :: "int \<Rightarrow> int \<times> int \<times> int" where
  "j2date jd =
     (let julian = jd + 32044;
          quad = julian div 146097;
          extra = (julian - quad * 146097) * 4 + 3;
          julian = julian + 60 + quad * 3 + extra div 146097;
          quad = julian div 1461;
          julian = julian - quad * 1461;
          y = julian * 4 div 1461;
          julian = (if y \<noteq> 0 then (julian + 305) mod 365 else (julian + 306) mod 366) + 123;
          y = y + quad * 4;
          quad = julian * 2141 div 65536
      in (y - 4800, (quad + 10) mod 12 + 1, julian - 7834 * quad div 256))"

definition isleap :: "int \<Rightarrow> bool" where
  "isleap y = (y mod 4 = 0 \<and> (y mod 100 \<noteq> 0 \<or> y mod 400 = 0))"

definition day_tab :: "bool \<Rightarrow> int \<Rightarrow> int" where
  "day_tab leap m =
     (if m = 2 then (if leap then 29 else 28)
      else if m = 4 \<or> m = 6 \<or> m = 9 \<or> m = 11 then 30 else 31)"

text \<open>The calendar date of a timestamp, as a day count: \<open>DATE(created_at)\<close>.\<close>

definition DATE :: "timestamp \<Rightarrow> date" where
  "DATE ts = ts div USECS_PER_DAY"

definition make_date :: "int \<Rightarrow> int \<Rightarrow> int \<Rightarrow> date" where
  "make_date y m d = date2j y m d - POSTGRES_EPOCH_JDATE"

definition timestamp_pl_interval :: "timestamp \<Rightarrow> interval \<Rightarrow> timestamp" where
  "timestamp_pl_interval ts iv =
     (let ts1 =
            (if span_month iv = 0 then ts
             else
               let (y, m, d) = j2date (DATE ts + POSTGRES_EPOCH_JDATE);
                   mon = m + span_month iv;
                   year = y + (mon - 1) div 12;
                   mon = (mon - 1) mod 12 + 1;
                   mday = min d (day_tab (isleap year) mon)
               in make_date year mon mday * USECS_PER_DAY + ts mod USECS_PER_DAY);
          ts2 = ts1 + span_day iv * USECS_PER_DAY
      in ts2 + span_time iv)"

definition timestamp_mi_interval :: "timestamp \<Rightarrow> interval \<Rightarrow> timestamp" where
  "timestamp_mi_interval ts iv =
     timestamp_pl_interval ts
       \<lparr>span_month = - span_month iv, span_day = - span_day iv,
        span_time = - span_time iv\<rparr>"

definition years :: "int \<Rightarrow> interval" where
  "years n = \<lparr>span_month = 12 * n, span_day = 0, span_time = 0\<rparr>"

definition days :: "int \<Rightarrow> interval" where
  "days n = \<lparr>span_month = 0, span_day = n, span_time = 0\<rparr>"

definition hours :: "int \<Rightarrow> interval" where
  "hours n = \<lparr>span_month = 0, span_day = 0, span_time = n * 3600000000\<rparr>"

definition minutes :: "int \<Rightarrow> interval" where
  "minutes n = \<lparr>span_month = 0, span_day = 0, span_time = n * 60000000\<rparr>"

text \<open>
  A comparison \<open>col < t\<close> in a WHERE clause: with NULL in the column it is not true, and
  the row is not selected.
\<close>

fun ts_lt :: "timestamp option \<Rightarrow> timestamp \<Rightarrow> bool" where
  "ts_lt None t = False"
| "ts_lt (Some c) t = (c < t)"

subsection \<open>Tables\<close>

text \<open>
  One record per table, a field per column in the order of the CREATE TABLE; the fields
  carry the prefix \<open>ds_\<close>, \<open>ec_\<close> or \<open>qm_\<close> of their table, since several
  columns share a name. A NOT NULL column has a plain type. The \<open>id\<close> of a row is taken
  from the table's sequence (SERIAL); no statement here supplies one.
\<close>

record demo_sessions_row =
  ds_id :: int
  ds_session_id :: string
  ds_file_name :: string
  ds_file_size :: int
  ds_file_hash :: "string option"
  ds_extraction_success :: "bool option"
  ds_jira_ticket_created :: "bool option"
  ds_jira_ticket_key :: "string option"
  ds_quality_score :: "float8 option"
  ds_latency_ms :: "int option"
  ds_error_message :: "string option"
  ds_ip_address :: "string option"
  ds_user_agent :: "string option"
  ds_created_at :: "timestamp option"

record extraction_cache_row =
  ec_id :: int
  ec_file_hash :: string
  ec_extraction_result :: jsonb
  ec_confidence_score :: "float8 option"
  ec_created_at :: "timestamp option"
  ec_accessed_at :: "timestamp option"
  ec_access_count :: "int option"

record quality_metrics_row =
  qm_id :: int
  qm_date :: date
  qm_total_extractions :: "int option"
  qm_successful_extractions :: "int option"
  qm_avg_confidence_score :: "float8 option"
  qm_avg_latency_ms :: "int option"
  qm_jira_tickets_created :: "int option"
  qm_total_cost_eur :: "float8 option"
  qm_created_at :: "timestamp option"

record db =
  demo_sessions :: "demo_sessions_row list"
  demo_sessions_id_seq :: int
  extraction_cache :: "extraction_cache_row list"
  extraction_cache_id_seq :: int
  quality_metrics :: "quality_metrics_row list"
  quality_metrics_id_seq :: int

text \<open>The database after the CREATE statements on a fresh server.\<close>

definition empty_db :: db where
  "empty_db =
     \<lparr>demo_sessions = [], demo_sessions_id_seq = 1,
      extraction_cache = [], extraction_cache_id_seq = 1,
      quality_metrics = [], quality_metrics_id_seq = 1\<rparr>"

subsection \<open>INSERT INTO demo_sessions\<close>

text \<open>The values of one row of an INSERT, a field per column that a caller may give.\<close>

record demo_sessions_values =
  new_session_id :: "string colval"
  new_file_name :: "string colval"
  new_file_size :: "int colval"
  new_file_hash :: "string colval"
  new_extraction_success :: "bool colval"
  new_jira_ticket_created :: "bool colval"
  new_jira_ticket_key :: "string colval"
  new_quality_score :: "float8 colval"
  new_latency_ms :: "int colval"
  new_error_message :: "string colval"
  new_ip_address :: "string colval"
  new_user_agent :: "string colval"
  new_created_at :: "timestamp colval"

text \<open>
  The row that the values make, with \<open>i\<close> the value of the sequence and \<open>now\<close>
  CURRENT_TIMESTAMP. The values are first assigned to the column types, in column order
  (a string too long for its VARCHAR, an integer out of range); then the NOT NULL
  constraints are checked. The table has no CHECK constraint.
\<close>

definition demo_sessions_row_of ::
  "timestamp \<Rightarrow> int \<Rightarrow> demo_sessions_values \<Rightarrow> sql_error + demo_sessions_row" where
  "demo_sessions_row_of now i v =
     (let session_id = supplied None (new_session_id v);
          file_name = supplied None (new_file_name v);
          file_size = supplied None (new_file_size v);
          file_hash = supplied None (new_file_hash v);
          jira_ticket_key = supplied None (new_jira_ticket_key v);
          latency_ms = supplied None (new_latency_ms v);
          ip_address = supplied None (new_ip_address v)
      in case first_error
           [check (varchar_error 16) session_id, check (varchar_error 255) file_name,
            check int4_error file_size, check (varchar_error 64) file_hash,
            check (varchar_error 50) jira_ticket_key, check int4_error latency_ms,
            check (varchar_error 45) ip_address] of
           Some e \<Rightarrow> Inl e
         | None \<Rightarrow>
             (case session_id of
                None \<Rightarrow> Inl (not_null_violation ''session_id'')
              | Some sid \<Rightarrow>
             (case file_name of
                None \<Rightarrow> Inl (not_null_violation ''file_name'')
              | Some fname \<Rightarrow>
             (case file_size of
                None \<Rightarrow> Inl (not_null_violation ''file_size'')
              | Some fsize \<Rightarrow>
                  Inr \<lparr>ds_id = i,
                       ds_session_id = varchar 16 sid,
                       ds_file_name = varchar 255 fname,
                       ds_file_size = fsize,
                       ds_file_hash = map_option (varchar 64) file_hash,
                       ds_extraction_success = supplied (Some False) (new_extraction_success v),
                       ds_jira_ticket_created = supplied (Some False) (new_jira_ticket_created v),
                       ds_jira_ticket_key = map_option (varchar 50) jira_ticket_key,
                       ds_quality_score = supplied None (new_quality_score v),
                       ds_latency_ms = latency_ms,
                       ds_error_message = supplied None (new_error_message v),
                       ds_ip_address = map_option (varchar 45) ip_address,
                       ds_user_agent = supplied None (new_user_agent v),
                       ds_created_at = supplied (Some now) (new_created_at v)\<rparr>))))"

text \<open>
  A plain INSERT of one row. The unique indexes are checked once the row is formed: the
  primary key, then \<open>session_id\<close>. A statement that fails leaves the tables as they were.
\<close>

definition insert_demo_sessions ::
  "timestamp \<Rightarrow> demo_sessions_values \<Rightarrow> db \<Rightarrow> sql_error + db" where
  "insert_demo_sessions now v db =
     (case demo_sessions_row_of now (demo_sessions_id_seq db) v of
        Inl e \<Rightarrow> Inl e
      | Inr r \<Rightarrow>
          if ds_id r \<in> ds_id ` set (demo_sessions db)
          then Inl (unique_violation ''demo_sessions_pkey'')
          else if ds_session_id r \<in> ds_session_id ` set (demo_sessions db)
          then Inl (unique_violation ''demo_sessions_session_id_key'')
          else Inr (db\<lparr>demo_sessions := demo_sessions db @ [r],
                       demo_sessions_id_seq := demo_sessions_id_seq db + 1\<rparr>))"

text \<open>
  INSERT ... ON CONFLICT (session_id) DO NOTHING, one row: a row whose \<open>session_id\<close> is
  already in the table is skipped without an error (its sequence value is used up).
\<close>

definition insert_demo_sessions_do_nothing ::
  "timestamp \<Rightarrow> demo_sessions_values \<Rightarrow> db \<Rightarrow> sql_error + db" where
  "insert_demo_sessions_do_nothing now v db =
     (case demo_sessions_row_of now (demo_sessions_id_seq db) v of
        Inl e \<Rightarrow> Inl e
      | Inr r \<Rightarrow>
          if ds_session_id r \<in> ds_session_id ` set (demo_sessions db)
          then Inr (db\<lparr>demo_sessions_id_seq := demo_sessions_id_seq db + 1\<rparr>)
          else if ds_id r \<in> ds_id ` set (demo_sessions db)
          then Inl (unique_violation ''demo_sessions_pkey'')
          else Inr (db\<lparr>demo_sessions := demo_sessions db @ [r],
                       demo_sessions_id_seq := demo_sessions_id_seq db + 1\<rparr>))"

text \<open>The rows of a VALUES list, one after the other; the first error ends the statement.\<close>

fun insert_all_demo_sessions_do_nothing ::
  "timestamp \<Rightarrow> demo_sessions_values list \<Rightarrow> db \<Rightarrow> sql_error + db" where
  "insert_all_demo_sessions_do_nothing now [] db = Inr db"
| "insert_all_demo_sessions_do_nothing now (v # vs) db =
     (case insert_demo_sessions_do_nothing now v db of
        Inl e \<Rightarrow> Inl e
      | Inr db' \<Rightarrow> insert_all_demo_sessions_do_nothing now vs db')"

text \<open>
  The seed insert at the end of the script: three rows, the columns \<open>error_message\<close>,
  \<open>ip_address\<close> and \<open>user_agent\<close> not given, ON CONFLICT (session_id) DO NOTHING.
\<close>

definition seed_values :: "timestamp \<Rightarrow> demo_sessions_values list" where
  "seed_values now =
     [\<lparr>new_session_id = Val ''demo001'', new_file_name = Val ''contrat_service.pdf'',
       new_file_size = Val 245760, new_file_hash = Val ''hash001'',
       new_extraction_success = Val True, new_jira_ticket_created = Val True,
       new_jira_ticket_key = Val ''DEMO-1'', new_quality_score = Val (92 / 100),
       new_latency_ms = Val 6200, new_error_message = DEFAULT, new_ip_address = DEFAULT,
       new_user_agent = DEFAULT,
       new_created_at = Val (timestamp_mi_interval now (hours 2))\<rparr>,
      \<lparr>new_session_id = Val ''demo002'', new_file_name = Val ''bon_commande.docx'',
       new_file_size = Val 156432, new_file_hash = Val ''hash002'',
       new_extraction_success = Val True, new_jira_ticket_created = Val True,
       new_jira_ticket_key = Val ''DEMO-2'', new_quality_score = Val (88 / 100),
       new_latency_ms = Val 5800, new_error_message = DEFAULT, new_ip_address = DEFAULT,
       new_user_agent = DEFAULT,
       new_created_at = Val (timestamp_mi_interval now (hours 1))\<rparr>,
      \<lparr>new_session_id = Val ''demo003'', new_file_name = Val ''contrat_bail.txt'',
       new_file_size = Val 12456, new_file_hash = Val ''hash003'',
       new_extraction_success = Val True, new_jira_ticket_created = Val False,
       new_jira_ticket_key = NULL, new_quality_score = Val (75 / 100),
       new_latency_ms = Val 7200, new_error_message = DEFAULT, new_ip_address = DEFAULT,
       new_user_agent = DEFAULT,
       new_created_at = Val (timestamp_mi_interval now (minutes 30))\<rparr>]"

definition seed_demo_sessions :: "timestamp \<Rightarrow> db \<Rightarrow> sql_error + db" where
  "seed_demo_sessions now db = insert_all_demo_sessions_do_nothing now (seed_values now) db"

subsection \<open>INSERT INTO extraction_cache and the read by hash\<close>

record extraction_cache_values =
  new_cache_file_hash :: "string colval"
  new_extraction_result :: "jsonb colval"
  new_confidence_score :: "float8 colval"
  new_cache_created_at :: "timestamp colval"
  new_accessed_at :: "timestamp colval"
  new_access_count :: "int colval"

definition extraction_cache_row_of ::
  "timestamp \<Rightarrow> int \<Rightarrow> extraction_cache_values \<Rightarrow> sql_error + extraction_cache_row" where
  "extraction_cache_row_of now i v =
     (let file_hash = supplied None (new_cache_file_hash v);
          extraction_result = supplied None (new_extraction_result v);
          access_count = supplied (Some 1) (new_access_count v)
      in case first_error
           [check (varchar_error 64) file_hash, check int4_error access_count] of
           Some e \<Rightarrow> Inl e
         | None \<Rightarrow>
             (case file_hash of
                None \<Rightarrow> Inl (not_null_violation ''file_hash'')
              | Some h \<Rightarrow>
             (case extraction_result of
                None \<Rightarrow> Inl (not_null_violation ''extraction_result'')
              | Some res \<Rightarrow>
                  Inr \<lparr>ec_id = i,
                       ec_file_hash = varchar 64 h,
                       ec_extraction_result = res,
                       ec_confidence_score = supplied None (new_confidence_score v),
                       ec_created_at = supplied (Some now) (new_cache_created_at v),
                       ec_accessed_at = supplied (Some now) (new_accessed_at v),
                       ec_access_count = access_count\<rparr>)))"

text \<open>
  The unique index on \<open>file_hash\<close> compares the hash alone: the table has nothing that
  looks at \<open>extraction_result\<close> when the hash is already there.
\<close>

definition insert_extraction_cache ::
  "timestamp \<Rightarrow> extraction_cache_values \<Rightarrow> db \<Rightarrow> sql_error + db" where
  "insert_extraction_cache now v db =
     (case extraction_cache_row_of now (extraction_cache_id_seq db) v of
        Inl e \<Rightarrow> Inl e
      | Inr r \<Rightarrow>
          if ec_id r \<in> ec_id ` set (extraction_cache db)
          then Inl (unique_violation ''extraction_cache_pkey'')
          else if ec_file_hash r \<in> ec_file_hash ` set (extraction_cache db)
          then Inl (unique_violation ''extraction_cache_file_hash_key'')
          else Inr (db\<lparr>extraction_cache := extraction_cache db @ [r],
                       extraction_cache_id_seq := extraction_cache_id_seq db + 1\<rparr>))"


subsection \<open>INSERT INTO quality_metrics\<close>

record quality_metrics_values =
  new_date :: "date colval"
  new_total_extractions :: "int colval"
  new_successful_extractions :: "int colval"
  new_avg_confidence_score :: "float8 colval"
  new_avg_latency_ms :: "int colval"
  new_jira_tickets_created :: "int colval"
  new_total_cost_eur :: "float8 colval"
  new_metrics_created_at :: "timestamp colval"

definition quality_metrics_row_of ::
  "timestamp \<Rightarrow> int \<Rightarrow> quality_metrics_values \<Rightarrow> sql_error + quality_metrics_row" where
  "quality_metrics_row_of now i v =
     (let total_extractions = supplied (Some 0) (new_total_extractions v);
          successful_extractions = supplied (Some 0) (new_successful_extractions v);
          avg_latency_ms = supplied None (new_avg_latency_ms v);
          jira_tickets_created = supplied (Some 0) (new_jira_tickets_created v)
      in case first_error
           [check int4_error total_extractions, check int4_error successful_extractions,
            check int4_error avg_latency_ms, check int4_error jira_tickets_created] of
           Some e \<Rightarrow> Inl e
         | None \<Rightarrow>
             (case supplied None (new_date v) of
                None \<Rightarrow> Inl (not_null_violation ''date'')
              | Some d \<Rightarrow>
                  Inr \<lparr>qm_id = i,
                       qm_date = d,
                       qm_total_extractions = total_extractions,
                       qm_successful_extractions = successful_extractions,
                       qm_avg_confidence_score = supplied None (new_avg_confidence_score v),
                       qm_avg_latency_ms = avg_latency_ms,
                       qm_jira_tickets_created = jira_tickets_created,
                       qm_total_cost_eur = supplied (Some 0) (new_total_cost_eur v),
                       qm_created_at = supplied (Some now) (new_metrics_created_at v)\<rparr>))"

definition insert_quality_metrics ::
  "timestamp \<Rightarrow> quality_metrics_values \<Rightarrow> db \<Rightarrow> sql_error + db" where
  "insert_quality_metrics now v db =
     (case quality_metrics_row_of now (quality_metrics_id_seq db) v of
        Inl e \<Rightarrow> Inl e
      | Inr r \<Rightarrow>
          if qm_id r \<in> qm_id ` set (quality_metrics db)
          then Inl (unique_violation ''quality_metrics_pkey'')
          else if qm_date r \<in> qm_date ` set (quality_metrics db)
          then Inl (unique_violation ''idx_quality_metrics_date'')
          else Inr (db\<lparr>quality_metrics := quality_metrics db @ [r],
                       quality_metrics_id_seq := quality_metrics_id_seq db + 1\<rparr>))"

subsection \<open>The view daily_stats\<close>

text \<open>
  One row per value of \<open>DATE(created_at)\<close>, the rows with NULL there forming a group of
  their own. ORDER BY date DESC puts the NULL group first and then the later date before
  the earlier. COUNT gives a number of rows; AVG over no value is NULL. AVG of the INTEGER
  column is a NUMERIC, given here as the exact quotient. AVG of the FLOAT column is computed
  in double precision and rounds as it sums: it is the parameter \<open>float8_avg\<close> of the
  view, applied to the values in storage order.
\<close>

record daily_stats_row =
  date :: "date option"
  total_sessions :: nat
  successful_extractions :: nat
  jira_tickets :: nat
  avg_quality :: "float8 option"
  avg_latency_ms :: "rat option"

definition int4_avg :: "int list \<Rightarrow> rat" where
  "int4_avg xs = of_int (sum_list xs) / of_nat (length xs)"

definition AVG :: "('a list \<Rightarrow> 'b) \<Rightarrow> 'a option list \<Rightarrow> 'b option" where
  "AVG f xs = (let vs = [x. Some x \<leftarrow> xs] in if vs = [] then None else Some (f vs))"

definition session_date :: "demo_sessions_row \<Rightarrow> date option" where
  "session_date r = map_option DATE (ds_created_at r)"

definition group_dates :: "demo_sessions_row list \<Rightarrow> date option list" where
  "group_dates ss =
     (let ks = map session_date ss
      in (if None \<in> set ks then [None] else [])
         @ map Some (rev (sort (remdups [d. Some d \<leftarrow> ks]))))"

definition stats_of_group ::
  "(float8 list \<Rightarrow> float8) \<Rightarrow> date option \<Rightarrow> demo_sessions_row list \<Rightarrow> daily_stats_row" where
  "stats_of_group float8_avg k g =
     \<lparr>date = k,
      total_sessions = length g,
      successful_extractions = length (filter (\<lambda>r. ds_extraction_success r = Some True) g),
      jira_tickets = length (filter (\<lambda>r. ds_jira_ticket_created r = Some True) g),
      avg_quality = AVG float8_avg (map ds_quality_score g),
      avg_latency_ms = AVG int4_avg (map ds_latency_ms g)\<rparr>"

definition daily_stats ::
  "(float8 list \<Rightarrow> float8) \<Rightarrow> demo_sessions_row list \<Rightarrow> daily_stats_row list" where
  "daily_stats float8_avg ss =
     map (\<lambda>k. stats_of_group float8_avg k (filter (\<lambda>r. session_date r = k) ss))
       (group_dates ss)"

subsection \<open>The function cleanup_old_data\<close>

text \<open>
  Three DELETE statements in one call; CURRENT_TIMESTAMP is the same in all three. A row
  is deleted when the comparison is true, and kept as it is otherwise.
\<close>

definition cleanup_old_data :: "timestamp \<Rightarrow> db \<Rightarrow> db" where
  "cleanup_old_data now db =
     db\<lparr>demo_sessions :=
          filter (\<lambda>r. \<not> ts_lt (ds_created_at r) (timestamp_mi_interval now (days 30)))
            (demo_sessions db),
        extraction_cache :=
          filter (\<lambda>r. \<not> ts_lt (ec_accessed_at r) (timestamp_mi_interval now (days 7)))
            (extraction_cache db),
        quality_metrics :=
          filter (\<lambda>r. \<not> ts_lt (qm_created_at r) (timestamp_mi_interval now (years 1)))
            (quality_metrics db)\<rparr>"

subsection \<open>Statements\<close>

text \<open>
  The statements that the schema gives: the inserts into the three tables, the insert
  that skips a conflict, the seed insert, and the cleanup. \<open>run\<close> is the database after
  a statement. A statement that fails changes no table, and \<open>run\<close> gives the database
  before it. (A failed insert may still have used up a value of its sequence. The
  sequences are here for the ids of the rows only, and the properties of a failed
  statement below speak about the tables.)
\<close>

datatype stmt =
  Insert_demo_sessions demo_sessions_values
  | Insert_demo_sessions_do_nothing "demo_sessions_values list"
  | Seed_demo_sessions
  | Insert_extraction_cache extraction_cache_values
  | Insert_quality_metrics quality_metrics_values
  | Cleanup_old_data

fun exec :: "timestamp \<Rightarrow> stmt \<Rightarrow> db \<Rightarrow> sql_error + db" where
  "exec now (Insert_demo_sessions v) db = insert_demo_sessions now v db"
| "exec now (Insert_demo_sessions_do_nothing vs) db =
     insert_all_demo_sessions_do_nothing now vs db"
| "exec now Seed_demo_sessions db = seed_demo_sessions now db"
| "exec now (Insert_extraction_cache v) db = insert_extraction_cache now v db"
| "exec now (Insert_quality_metrics v) db = insert_quality_metrics now v db"
| "exec now Cleanup_old_data db = Inr (cleanup_old_data now db)"

definition run :: "timestamp \<Rightarrow> stmt \<Rightarrow> db \<Rightarrow> db" where
  "run now s db = (case exec now s db of Inl e \<Rightarrow> db | Inr db' \<Rightarrow> db')"

text \<open>
  What the PRIMARY KEY and UNIQUE constraints and the sequences maintain: the ids of a
  table are below the next value of its sequence, and no two rows share a
  \<open>session_id\<close>, a \<open>file_hash\<close> or a metrics \<open>date\<close>.
\<close>

definition invar :: "db \<Rightarrow> bool" where
  "invar db \<longleftrightarrow>
     (\<forall>r \<in> set (demo_sessions db). ds_id r < demo_sessions_id_seq db)
     \<and> distinct (map ds_session_id (demo_sessions db))
     \<and> (\<forall>r \<in> set (extraction_cache db). ec_id r < extraction_cache_id_seq db)
     \<and> distinct (map ec_file_hash (extraction_cache db))
     \<and> (\<forall>r \<in> set (quality_metrics db). qm_id r < quality_metrics_id_seq db)
     \<and> distinct (map qm_date (quality_metrics db))"

subsection \<open>Example data\<close>

text \<open>
  Values for the examples below: a session record and a cache entry in the shape of the
  seed rows, two result payloads, and databases built from \<open>empty_db\<close> by the
  statements of the schema. \<open>day n\<close> is midnight of day \<open>n\<close> after 2000-01-01;
  day 9132 is 2025-01-01. \<open>exact_avg\<close> is an average without rounding, to run the
  view on examples; \<open>exact_columns\<close> are the columns of a view row that involve no
  FLOAT.
\<close>

definition exact_avg :: "float8 list \<Rightarrow> float8" where
  "exact_avg xs = sum_list xs / of_nat (length xs)"


definition day :: "int \<Rightarrow> timestamp" where
  "day n = n * USECS_PER_DAY"

definition example_session :: "string \<Rightarrow> bool \<Rightarrow> int \<Rightarrow> demo_sessions_values" where
  "example_session sid ok ms =
     \<lparr>new_session_id = Val sid, new_file_name = Val ''contract.pdf'',
      new_file_size = Val 1024, new_file_hash = Val ''h1'',
      new_extraction_success = Val ok, new_jira_ticket_created = Val False,
      new_jira_ticket_key = NULL, new_quality_score = DEFAULT,
      new_latency_ms = Val ms, new_error_message = DEFAULT, new_ip_address = DEFAULT,
      new_user_agent = DEFAULT, new_created_at = DEFAULT\<rparr>"

definition example_entry :: "string \<Rightarrow> jsonb \<Rightarrow> extraction_cache_values" where
  "example_entry h res =
     \<lparr>new_cache_file_hash = Val h, new_extraction_result = Val res,
      new_confidence_score = Val (9 / 10), new_cache_created_at = DEFAULT,
      new_accessed_at = DEFAULT, new_access_count = DEFAULT\<rparr>"




definition seeded :: db where
  "seeded = run (day 9132) Seed_demo_sessions empty_db"

definition three_sessions :: db where
  "three_sessions =
     run (day 9132)
       (Insert_demo_sessions_do_nothing
          [example_session ''s1'' True 100, example_session ''s2'' True 200,
           example_session ''s3'' False 300])
       empty_db"



section \<open>Properties\<close>

subsection \<open>Auxiliary facts\<close>

lemmas insert_simps =
  run_def insert_demo_sessions_def demo_sessions_row_of_def insert_extraction_cache_def
  extraction_cache_row_of_def empty_db_def varchar_error_def varchar_def int4_error_def
  Let_def example_session_def example_entry_def

lemmas seed_simps =
  seed_demo_sessions_def seed_values_def insert_demo_sessions_do_nothing_def
  timestamp_mi_interval_def timestamp_pl_interval_def hours_def minutes_def day_def
  USECS_PER_DAY_def

lemmas view_simps =
  daily_stats_def group_dates_def session_date_def DATE_def stats_of_group_def AVG_def
  int4_avg_def exact_avg_def


lemma set_somes: "set [x. Some x \<leftarrow> xs] = {x. Some x \<in> set xs}"
  by (induction xs) (auto split: option.splits)

lemma mset_somes: "mset [x. Some x \<leftarrow> xs] = image_mset the (filter_mset (\<lambda>x. x \<noteq> None) (mset xs))"
  by (induction xs) (auto split: option.splits)


lemma length_filter_mono:
  "(\<And>x. x \<in> set xs \<Longrightarrow> P x \<Longrightarrow> Q x) \<Longrightarrow> length (filter P xs) \<le> length (filter Q xs)"
  by (induction xs) auto

lemma length_filter_image_mset:
  "length (filter (\<lambda>r. f r = v) g) = count (image_mset f (mset g)) v"
  by (induction g) auto






lemma AVG_int4_avg:
  "sum_list [x. Some x \<leftarrow> xs] = s \<Longrightarrow> length [x. Some x \<leftarrow> xs] = n \<Longrightarrow> 0 < n \<Longrightarrow>
   AVG int4_avg xs = Some (of_int s / of_nat n)"
  by (auto simp: AVG_def Let_def int4_avg_def)





subsection \<open>The rows of the view\<close>

lemma distinct_group_dates: "distinct (group_dates ss)"
  by (auto simp: group_dates_def Let_def distinct_map)

lemma set_group_dates: "set (group_dates ss) = session_date ` set ss"
proof -
  have "k \<in> set (group_dates ss) \<longleftrightarrow> k \<in> session_date ` set ss" for k
    by (cases k) (auto simp: group_dates_def Let_def set_somes)
  then show ?thesis by blast
qed


lemma filter_map_distinct:
  "distinct ks \<Longrightarrow> k \<in> set ks \<Longrightarrow> (\<And>x. p (f x) = x) \<Longrightarrow>
   filter (\<lambda>row. p row = k) (map f ks) = [f k]"
  by (induction ks) (auto simp: filter_empty_conv)

lemma date_stats_of_group [simp]: "date (stats_of_group a k g) = k"
  by (simp add: stats_of_group_def)

lemma daily_stats_row_of_date:
  assumes "k \<in> session_date ` set ss"
  shows "filter (\<lambda>row. date row = k) (daily_stats a ss)
         = [stats_of_group a k (filter (\<lambda>r. session_date r = k) ss)]"
  unfolding daily_stats_def
  using filter_map_distinct[of "group_dates ss" k date
          "\<lambda>k. stats_of_group a k (filter (\<lambda>r. session_date r = k) ss)"]
        assms distinct_group_dates[of ss] set_group_dates[of ss]
  by simp

lemma daily_stats_rows:
  "row \<in> set (daily_stats a ss) \<Longrightarrow>
   \<exists>k \<in> session_date ` set ss. row = stats_of_group a k (filter (\<lambda>r. session_date r = k) ss)"
  by (auto simp: daily_stats_def set_group_dates)


subsection \<open>What a statement does to a table\<close>

lemma insert_demo_sessions_Inr:
  "insert_demo_sessions now v db = Inr db' \<longleftrightarrow>
   (\<exists>r. demo_sessions_row_of now (demo_sessions_id_seq db) v = Inr r
      \<and> ds_id r \<notin> ds_id ` set (demo_sessions db)
      \<and> ds_session_id r \<notin> ds_session_id ` set (demo_sessions db)
      \<and> db' = db\<lparr>demo_sessions := demo_sessions db @ [r],
                  demo_sessions_id_seq := demo_sessions_id_seq db + 1\<rparr>)"
  by (auto simp: insert_demo_sessions_def split: sum.splits)

lemma insert_extraction_cache_Inr:
  "insert_extraction_cache now v db = Inr db' \<longleftrightarrow>
   (\<exists>r. extraction_cache_row_of now (extraction_cache_id_seq db) v = Inr r
      \<and> ec_id r \<notin> ec_id ` set (extraction_cache db)
      \<and> ec_file_hash r \<notin> ec_file_hash ` set (extraction_cache db)
      \<and> db' = db\<lparr>extraction_cache := extraction_cache db @ [r],
                  extraction_cache_id_seq := extraction_cache_id_seq db + 1\<rparr>)"
  by (auto simp: insert_extraction_cache_def split: sum.splits)

lemma insert_quality_metrics_Inr:
  "insert_quality_metrics now v db = Inr db' \<longleftrightarrow>
   (\<exists>r. quality_metrics_row_of now (quality_metrics_id_seq db) v = Inr r
      \<and> qm_id r \<notin> qm_id ` set (quality_metrics db)
      \<and> qm_date r \<notin> qm_date ` set (quality_metrics db)
      \<and> db' = db\<lparr>quality_metrics := quality_metrics db @ [r],
                  quality_metrics_id_seq := quality_metrics_id_seq db + 1\<rparr>)"
  by (auto simp: insert_quality_metrics_def split: sum.splits)








subsection \<open>The constraints hold in every database that the statements reach\<close>

lemma demo_sessions_row_of_id: "demo_sessions_row_of now i v = Inr r \<Longrightarrow> ds_id r = i"
  by (auto simp: demo_sessions_row_of_def Let_def split: option.splits)

lemma extraction_cache_row_of_id: "extraction_cache_row_of now i v = Inr r \<Longrightarrow> ec_id r = i"
  by (auto simp: extraction_cache_row_of_def Let_def split: option.splits)

lemma quality_metrics_row_of_id: "quality_metrics_row_of now i v = Inr r \<Longrightarrow> qm_id r = i"
  by (auto simp: quality_metrics_row_of_def Let_def split: option.splits)

lemma invar_empty_db: "invar empty_db"
  by (simp add: invar_def empty_db_def)

lemma invar_insert_demo_sessions:
  "invar db \<Longrightarrow> insert_demo_sessions now v db = Inr db' \<Longrightarrow> invar db'"
  by (auto simp: insert_demo_sessions_Inr invar_def dest!: demo_sessions_row_of_id
           intro!: less_imp_le)

lemma invar_insert_demo_sessions_do_nothing:
  "invar db \<Longrightarrow> insert_demo_sessions_do_nothing now v db = Inr db' \<Longrightarrow> invar db'"
  by (auto simp: insert_demo_sessions_do_nothing_def invar_def
           split: sum.splits if_splits dest!: demo_sessions_row_of_id intro!: less_imp_le)

lemma invar_insert_all_demo_sessions_do_nothing:
  "invar db \<Longrightarrow> insert_all_demo_sessions_do_nothing now vs db = Inr db' \<Longrightarrow> invar db'"
proof (induction vs arbitrary: db)
  case Nil
  then show ?case by simp
next
  case (Cons v vs)
  from Cons.prems(2) obtain db1 where
    1: "insert_demo_sessions_do_nothing now v db = Inr db1"
    and 2: "insert_all_demo_sessions_do_nothing now vs db1 = Inr db'"
    by (auto split: sum.splits)
  from invar_insert_demo_sessions_do_nothing[OF Cons.prems(1) 1] 2 show ?case
    by (rule Cons.IH)
qed

lemma invar_insert_extraction_cache:
  "invar db \<Longrightarrow> insert_extraction_cache now v db = Inr db' \<Longrightarrow> invar db'"
  by (auto simp: insert_extraction_cache_Inr invar_def dest!: extraction_cache_row_of_id
           intro!: less_imp_le)

lemma invar_insert_quality_metrics:
  "invar db \<Longrightarrow> insert_quality_metrics now v db = Inr db' \<Longrightarrow> invar db'"
  by (auto simp: insert_quality_metrics_Inr invar_def dest!: quality_metrics_row_of_id
           intro!: less_imp_le)

lemma invar_cleanup_old_data: "invar db \<Longrightarrow> invar (cleanup_old_data now db)"
  by (simp add: invar_def cleanup_old_data_def distinct_map_filter)

lemma invar_exec: "invar db \<Longrightarrow> exec now s db = Inr db' \<Longrightarrow> invar db'"
  by (cases s)
     (auto simp: seed_demo_sessions_def
           dest: invar_insert_demo_sessions invar_insert_all_demo_sessions_do_nothing
                 invar_insert_extraction_cache invar_insert_quality_metrics
                 invar_cleanup_old_data)

lemma invar_run: "invar db \<Longrightarrow> invar (run now s db)"
  by (auto simp: run_def split: sum.splits dest: invar_exec)

lemma invar_fresh_id:
  "invar db \<Longrightarrow> demo_sessions_row_of now (demo_sessions_id_seq db) v = Inr r \<Longrightarrow>
   ds_id r \<notin> ds_id ` set (demo_sessions db)"
  by (auto simp: invar_def dest!: demo_sessions_row_of_id)

lemma invar_fresh_cache_id:
  "invar db \<Longrightarrow> extraction_cache_row_of now (extraction_cache_id_seq db) v = Inr r \<Longrightarrow>
   ec_id r \<notin> ec_id ` set (extraction_cache db)"
  by (auto simp: invar_def dest!: extraction_cache_row_of_id)

subsection \<open>The cache table\<close>







subsection \<open>The view daily_stats\<close>

text \<open>
  Claim C3, as the view has it. In every row of \<open>daily_stats\<close>, over any session
  table, \<open>successful_extractions\<close> and \<open>jira_tickets\<close> are at most
  \<open>total_sessions\<close>. \<open>jira_tickets\<close> is at most
  \<open>successful_extractions\<close> when every session with \<open>jira_ticket_created\<close>
  true has \<open>extraction_success\<close> true; the table has no constraint that says so.
\<close>

theorem daily_stats_counts:
  assumes "row \<in> set (daily_stats float8_avg ss)"
  shows "successful_extractions row \<le> total_sessions row
         \<and> jira_tickets row \<le> total_sessions row
         \<and> ((\<forall>r \<in> set ss. ds_jira_ticket_created r = Some True \<longrightarrow>
                ds_extraction_success r = Some True) \<longrightarrow>
              jira_tickets row \<le> successful_extractions row)"
proof -
  from assms obtain k where
    row: "row = stats_of_group float8_avg k (filter (\<lambda>r. session_date r = k) ss)"
    by (auto dest: daily_stats_rows)
  show ?thesis
    unfolding row stats_of_group_def
    by (auto intro!: length_filter_mono)
qed

text \<open>
  The theorem on the seed rows, where every session with a ticket is a successful one.
\<close>

theorem daily_stats_counts_witness:
  "hd (daily_stats exact_avg (demo_sessions seeded))
     \<in> set (daily_stats exact_avg (demo_sessions seeded))
   \<and> successful_extractions (hd (daily_stats exact_avg (demo_sessions seeded)))
     \<le> total_sessions (hd (daily_stats exact_avg (demo_sessions seeded)))
   \<and> jira_tickets (hd (daily_stats exact_avg (demo_sessions seeded)))
     \<le> total_sessions (hd (daily_stats exact_avg (demo_sessions seeded)))
   \<and> jira_tickets (hd (daily_stats exact_avg (demo_sessions seeded)))
     \<le> successful_extractions (hd (daily_stats exact_avg (demo_sessions seeded)))"
proof -
  have m: "hd (daily_stats exact_avg (demo_sessions seeded))
             \<in> set (daily_stats exact_avg (demo_sessions seeded))"
    by (simp add: seeded_def insert_simps seed_simps view_simps)
  have j: "\<forall>r \<in> set (demo_sessions seeded).
             ds_jira_ticket_created r = Some True \<longrightarrow> ds_extraction_success r = Some True"
    by (simp add: seeded_def insert_simps seed_simps)
  from daily_stats_counts[OF m] j m show ?thesis
    by simp
qed

text \<open>
  Claim C3 as written says \<open>sideEffectCount \<le> successCount\<close> for all inputs. The
  table takes a session with \<open>extraction_success\<close> false and
  \<open>jira_ticket_created\<close> true; its day has one session, no success and one ticket.
\<close>

theorem daily_stats_jira_counterexample:
  "map (\<lambda>row. (total_sessions row, successful_extractions row, jira_tickets row))
     (daily_stats exact_avg
        (demo_sessions
           (run (day 9132)
              (Insert_demo_sessions
                 ((example_session ''s1'' False 100)\<lparr>new_jira_ticket_created := Val True\<rparr>))
              empty_db)))
   = [(1, 0, 1)]"
  by (simp add: insert_simps view_simps day_def USECS_PER_DAY_def)



text \<open>
  Claim C7. If the sessions of 2025-01-01 in the table have the success flags true, true,
  false and the latencies 100, 200, 300, in any pairing and any order, and whatever
  sessions other days have, then the view has exactly one row for 2025-01-01, with
  \<open>total_sessions\<close> 3, \<open>successful_extractions\<close> 2 and
  \<open>avg_latency_ms\<close> 200.
\<close>

theorem daily_stats_scenario:
  assumes g: "g = filter (\<lambda>r. session_date r = Some (make_date 2025 1 1)) ss"
    and s: "image_mset ds_extraction_success (mset g) = {#Some True, Some True, Some False#}"
    and l: "image_mset ds_latency_ms (mset g) = {#Some 100, Some 200, Some 300#}"
  shows "\<exists>row. filter (\<lambda>row. date row = Some (make_date 2025 1 1)) (daily_stats float8_avg ss) = [row]
           \<and> total_sessions row = 3 \<and> successful_extractions row = 2
           \<and> avg_latency_ms row = Some 200"
proof -
  have "size (image_mset ds_extraction_success (mset g)) = 3"
    unfolding s by simp
  then have n: "length g = 3" by simp
  then obtain r where "r \<in> set g" by (cases g) auto
  then have k: "Some (make_date 2025 1 1) \<in> session_date ` set ss"
    unfolding g by force
  have c: "length (filter (\<lambda>r. ds_extraction_success r = Some True) g) = 2"
    unfolding length_filter_image_mset s by simp
  have m: "mset [x. Some x \<leftarrow> map ds_latency_ms g] = {#100, 200, 300#}"
    unfolding mset_somes mset_map l by simp
  have "sum_mset (mset [x. Some x \<leftarrow> map ds_latency_ms g]) = 600"
    and "size (mset [x. Some x \<leftarrow> map ds_latency_ms g]) = 3"
    unfolding m by simp_all
  then have "sum_list [x. Some x \<leftarrow> map ds_latency_ms g] = 600"
    and "length [x. Some x \<leftarrow> map ds_latency_ms g] = 3"
    by (simp_all add: sum_mset_sum_list)
  then have a: "AVG int4_avg (map ds_latency_ms g) = Some 200"
    using AVG_int4_avg[of "map ds_latency_ms g" 600 3] by simp
  show ?thesis
    unfolding daily_stats_row_of_date[OF k] g[symmetric]
    by (simp add: stats_of_group_def n c a)
qed

text \<open>
  The theorem on three sessions inserted at midnight of 2025-01-01.
\<close>

theorem daily_stats_scenario_witness:
  "image_mset ds_extraction_success
     (mset (filter (\<lambda>r. session_date r = Some (make_date 2025 1 1)) (demo_sessions three_sessions)))
     = {#Some True, Some True, Some False#}
   \<and> image_mset ds_latency_ms
     (mset (filter (\<lambda>r. session_date r = Some (make_date 2025 1 1)) (demo_sessions three_sessions)))
     = {#Some 100, Some 200, Some 300#}
   \<and> (\<exists>row. filter (\<lambda>row. date row = Some (make_date 2025 1 1))
               (daily_stats exact_avg (demo_sessions three_sessions)) = [row]
           \<and> total_sessions row = 3 \<and> successful_extractions row = 2
           \<and> avg_latency_ms row = Some 200)"
proof -
  have d: "make_date 2025 1 1 = 9132"
    by code_simp
  have s: "image_mset ds_extraction_success
     (mset (filter (\<lambda>r. session_date r = Some (make_date 2025 1 1)) (demo_sessions three_sessions)))
     = {#Some True, Some True, Some False#}"
    unfolding d by (simp add: three_sessions_def insert_simps seed_simps session_date_def DATE_def)
  have l: "image_mset ds_latency_ms
     (mset (filter (\<lambda>r. session_date r = Some (make_date 2025 1 1)) (demo_sessions three_sessions)))
     = {#Some 100, Some 200, Some 300#}"
    unfolding d by (simp add: three_sessions_def insert_simps seed_simps session_date_def DATE_def)
  from daily_stats_scenario[OF refl s l, of exact_avg] s l show ?thesis
    by (intro conjI)
qed

subsection \<open>The cleanup\<close>






subsection \<open>The session table\<close>









end
